theory Spec2Isabelle
  imports Complex_Main
begin

section \<open>Geometry primitives (spatial\_logic.py)\<close>

text \<open>
  A bounding box is the Python tuple \<open>(x1, y1, x2, y2)\<close> of unbounded integers.
  Python floats are modelled as reals. The centre \<open>(x1 + x2) / 2\<close> is a half-integer
  and exact in a double for pixel coordinates; \<open>iou\<close> is a quotient whose sign and
  zero-ness do not depend on rounding.
\<close>

type_synonym BBox = "int \<times> int \<times> int \<times> int"

fun bbox_center :: "BBox \<Rightarrow> real \<times> real" where
  "bbox_center (x1, y1, x2, y2) = (real_of_int (x1 + x2) / 2, real_of_int (y1 + y2) / 2)"

fun point_inside :: "BBox \<Rightarrow> real \<times> real \<Rightarrow> bool" where
  "point_inside (x1, y1, x2, y2) (x, y) =
     (real_of_int x1 \<le> x \<and> x \<le> real_of_int x2 \<and> real_of_int y1 \<le> y \<and> y \<le> real_of_int y2)"

text \<open>The intersection area and the denominator of \<open>iou\<close>, as the source computes them.\<close>

fun iou_inter :: "BBox \<Rightarrow> BBox \<Rightarrow> int" where
  "iou_inter (ax1, ay1, ax2, ay2) (bx1, by1, bx2, by2) =
     (let inter_w = max 0 (min ax2 bx2 - max ax1 bx1);
          inter_h = max 0 (min ay2 by2 - max ay1 by1)
      in inter_w * inter_h)"

fun bbox_area :: "BBox \<Rightarrow> int" where
  "bbox_area (x1, y1, x2, y2) = (x2 - x1) * (y2 - y1)"

definition iou_union :: "BBox \<Rightarrow> BBox \<Rightarrow> real" where
  "iou_union a b = real_of_int (bbox_area a + bbox_area b - iou_inter a b) + 1 / 1000000"

definition iou :: "BBox \<Rightarrow> BBox \<Rightarrow> real" where
  "iou a b = real_of_int (iou_inter a b) / iou_union a b"

text \<open>
  \<open>int(y1 + top_ratio * h)\<close> truncates towards zero; \<open>top_ratio\<close> is always the
  default 0.3 in this repository.
\<close>

definition py_int :: "real \<Rightarrow> int" where
  "py_int r = (if 0 \<le> r then \<lfloor>r\<rfloor> else \<lceil>r\<rceil>)"

fun head_region :: "BBox \<Rightarrow> BBox" where
  "head_region (x1, y1, x2, y2) =
     (let h = y2 - y1 in (x1, y1, x2, py_int (real_of_int y1 + (3 / 10) * real_of_int h)))"

section \<open>Spatial association engine (spatial\_logic.py)\<close>

text \<open>The loop appends each matching person to \<open>riders\<close>, in encounter order.\<close>

fun assign_riders_loop :: "BBox \<Rightarrow> BBox list \<Rightarrow> BBox list \<Rightarrow> BBox list" where
  "assign_riders_loop bike_bbox [] riders = riders"
| "assign_riders_loop bike_bbox (pb # pbs) riders =
     (if point_inside bike_bbox (bbox_center pb)
      then assign_riders_loop bike_bbox pbs (riders @ [pb])
      else assign_riders_loop bike_bbox pbs riders)"

definition assign_riders_to_bike :: "BBox \<Rightarrow> BBox list \<Rightarrow> BBox list" where
  "assign_riders_to_bike bike_bbox person_bboxes = assign_riders_loop bike_bbox person_bboxes []"

text \<open>The loop returns at the first helmet box that overlaps the head region.\<close>

fun has_helmet_loop :: "BBox \<Rightarrow> BBox list \<Rightarrow> bool" where
  "has_helmet_loop head [] = False"
| "has_helmet_loop head (hb # hbs) = (if 0 < iou head hb then True else has_helmet_loop head hbs)"

definition has_helmet_for_person :: "BBox \<Rightarrow> BBox list \<Rightarrow> bool" where
  "has_helmet_for_person person_bbox helmet_bboxes =
     has_helmet_loop (head_region person_bbox) helmet_bboxes"

definition count_riders_on_bike :: "BBox \<Rightarrow> BBox list \<Rightarrow> nat" where
  "count_riders_on_bike bike_bbox person_bboxes =
     length (assign_riders_to_bike bike_bbox person_bboxes)"

text \<open>Vocabulary of the geometry properties.\<close>

fun well_formed :: "BBox \<Rightarrow> bool" where
  "well_formed (x1, y1, x2, y2) = (x1 \<le> x2 \<and> y1 \<le> y2)"

definition approx_one :: "real \<Rightarrow> bool" where
  "approx_one r = (\<bar>r - 1\<bar> < 1 / 1000000)"

section \<open>Violation classifier (detect.py)\<close>

text \<open>
  \<open>_yolo_advanced_detection\<close> runs when a model is loaded; \<open>model_type\<close> is then one of
  three values. A detection is the lower-cased class name, the integer box of
  \<open>_to_bbox\<close> and the confidence, as the loop over \<open>results.boxes\<close> reads them.
\<close>

datatype model_type = custom_indonesian | yolov8m | yolov8n

record raw_box =
  cls_name :: string
  bbox :: BBox
  conf :: real

text \<open>
  The three shapes of violation dictionary the detector builds:
  \<open>{type: helmet_violation, bbox, confidence, detected_directly}\<close>,
  \<open>{type: triple_riding, bike_bbox, riders, confidence}\<close> and
  \<open>{type: helmet_violation, rider_bbox, bike_bbox, confidence}\<close>.
\<close>

datatype violation =
    Direct_violation BBox real
  | Triple_riding BBox nat real
  | Helmet_violation BBox BBox real

fun type_of_violation :: "violation \<Rightarrow> string" where
  "type_of_violation (Direct_violation b c) = ''helmet_violation''"
| "type_of_violation (Triple_riding b n c) = ''triple_riding''"
| "type_of_violation (Helmet_violation r b c) = ''helmet_violation''"

fun confidence :: "violation \<Rightarrow> real" where
  "confidence (Direct_violation b c) = c"
| "confidence (Triple_riding b n c) = c"
| "confidence (Helmet_violation r b c) = c"

text \<open>
  The lists the first loop fills: \<open>bboxes[CLASS_PERSON]\<close>, \<open>bboxes[CLASS_BIKE]\<close>,
  \<open>bboxes[CLASS_HELMET]\<close>, \<open>bboxes[CLASS_PLATE]\<close> and \<open>direct_violations\<close>.
\<close>

record detections =
  persons :: "BBox list"
  bikes :: "BBox list"
  helmets :: "BBox list"
  plates :: "BBox list"
  direct_violations :: "violation list"

definition no_detections :: detections where
  "no_detections = \<lparr>persons = [], bikes = [], helmets = [], plates = [], direct_violations = []\<rparr>"

definition organize_step :: "model_type \<Rightarrow> raw_box \<Rightarrow> detections \<Rightarrow> detections" where
  "organize_step mt box st =
     (if mt = custom_indonesian then
        (if cls_name box = ''pengendara'' then st\<lparr>persons := persons st @ [bbox box]\<rparr>
         else if cls_name box = ''helm'' then st\<lparr>helmets := helmets st @ [bbox box]\<rparr>
         else if cls_name box = ''platnomor'' then st\<lparr>plates := plates st @ [bbox box]\<rparr>
         else if cls_name box = ''tanpahelm'' then
           st\<lparr>persons := persons st @ [bbox box],
              direct_violations := direct_violations st @ [Direct_violation (bbox box) (conf box)]\<rparr>
         else st)
      else
        (if cls_name box = ''person'' then st\<lparr>persons := persons st @ [bbox box]\<rparr>
         else if cls_name box = ''motorbike'' \<or> cls_name box = ''motorcycle'' \<or> cls_name box = ''bike''
           then st\<lparr>bikes := bikes st @ [bbox box]\<rparr>
         else if cls_name box = ''helmet'' then st\<lparr>helmets := helmets st @ [bbox box]\<rparr>
         else if cls_name box = ''license_plate'' \<or> cls_name box = ''number_plate'' \<or> cls_name box = ''plate''
           then st\<lparr>plates := plates st @ [bbox box]\<rparr>
         else st))"

fun organize_loop :: "model_type \<Rightarrow> raw_box list \<Rightarrow> detections \<Rightarrow> detections" where
  "organize_loop mt [] st = st"
| "organize_loop mt (box # boxes) st = organize_loop mt boxes (organize_step mt box st)"

definition organize :: "model_type \<Rightarrow> raw_box list \<Rightarrow> detections" where
  "organize mt boxes = organize_loop mt boxes no_detections"

text \<open>
  The second loop: per vehicle, the triple-riding check and then, for the standard
  models, the helmet check of each rider; every violation is appended to \<open>violations\<close>.
\<close>

fun rider_loop :: "BBox \<Rightarrow> BBox list \<Rightarrow> BBox list \<Rightarrow> violation list \<Rightarrow> violation list" where
  "rider_loop bike_bbox hs [] violations = violations"
| "rider_loop bike_bbox hs (rider_bbox # riders) violations =
     rider_loop bike_bbox hs riders
       (if \<not> has_helmet_for_person rider_bbox hs
        then violations @ [Helmet_violation rider_bbox bike_bbox (85 / 100)]
        else violations)"

fun bike_loop ::
  "model_type \<Rightarrow> BBox list \<Rightarrow> BBox list \<Rightarrow> BBox list \<Rightarrow> violation list \<Rightarrow> violation list" where
  "bike_loop mt ps hs [] violations = violations"
| "bike_loop mt ps hs (bike_bbox # bs) violations =
     (let riders = assign_riders_to_bike bike_bbox ps;
          rider_count = length riders;
          violations1 = (if 3 \<le> rider_count
                         then violations @ [Triple_riding bike_bbox rider_count (90 / 100)]
                         else violations);
          violations2 = (if mt \<noteq> custom_indonesian
                         then rider_loop bike_bbox hs riders violations1
                         else violations1)
      in bike_loop mt ps hs bs violations2)"

definition classify :: "model_type \<Rightarrow> detections \<Rightarrow> violation list" where
  "classify mt st =
     (let violations = (if mt = custom_indonesian \<and> direct_violations st \<noteq> []
                        then [] @ direct_violations st else [])
      in bike_loop mt (persons st) (helmets st) (bikes st) violations)"

definition yolo_advanced_detection :: "model_type \<Rightarrow> raw_box list \<Rightarrow> violation list" where
  "yolo_advanced_detection mt boxes = classify mt (organize mt boxes)"

text \<open>
  Vocabulary of the ordering properties; \<open>claimed_order\<close> is the grouping by kind:
  direct violations, then triple-riding violations, then spatially-derived helmet
  violations.
\<close>

fun is_direct :: "violation \<Rightarrow> bool" where
  "is_direct (Direct_violation b c) = True"
| "is_direct v = False"

fun is_triple :: "violation \<Rightarrow> bool" where
  "is_triple (Triple_riding b n c) = True"
| "is_triple v = False"

fun is_spatial_helmet :: "violation \<Rightarrow> bool" where
  "is_spatial_helmet (Helmet_violation r b c) = True"
| "is_spatial_helmet v = False"

fun triple_for :: "BBox \<Rightarrow> violation \<Rightarrow> bool" where
  "triple_for b (Triple_riding b' n c) = (b' = b)"
| "triple_for b v = False"

definition claimed_order :: "violation list \<Rightarrow> bool" where
  "claimed_order vs = (vs = filter is_direct vs @ filter is_triple vs @ filter is_spatial_helmet vs)"

text \<open>
  Vocabulary of the classifier properties: the class names that feed each detection
  list, and the violations one vehicle contributes.
\<close>

definition triple_part :: "BBox list \<Rightarrow> BBox \<Rightarrow> violation list" where
  "triple_part ps b =
     (let n = length (filter (\<lambda>p. point_inside b (bbox_center p)) ps)
      in if 3 \<le> n then [Triple_riding b n (90 / 100)] else [])"

definition helmet_part :: "model_type \<Rightarrow> BBox list \<Rightarrow> BBox list \<Rightarrow> BBox \<Rightarrow> violation list" where
  "helmet_part mt ps hs b =
     (if mt \<noteq> custom_indonesian
      then map (\<lambda>r. Helmet_violation r b (85 / 100))
             (filter (\<lambda>r. \<not> has_helmet_for_person r hs)
                (filter (\<lambda>p. point_inside b (bbox_center p)) ps))
      else [])"

definition is_person_cls :: "model_type \<Rightarrow> string \<Rightarrow> bool" where
  "is_person_cls mt c =
     (if mt = custom_indonesian then c = ''pengendara'' \<or> c = ''tanpahelm'' else c = ''person'')"

definition is_bike_cls :: "model_type \<Rightarrow> string \<Rightarrow> bool" where
  "is_bike_cls mt c =
     (if mt = custom_indonesian then False
      else c = ''motorbike'' \<or> c = ''motorcycle'' \<or> c = ''bike'')"

definition is_direct_cls :: "model_type \<Rightarrow> string \<Rightarrow> bool" where
  "is_direct_cls mt c = (mt = custom_indonesian \<and> c = ''tanpahelm'')"

section \<open>Plate normalizer (paddle\_ocr\_reader.py)\<close>

text \<open>
  Strings are lists of 8-bit characters. \<open>str.upper\<close> is modelled on ASCII: the letters
  \<open>a\<close> to \<open>z\<close> move to \<open>A\<close> to \<open>Z\<close> and every other character stays.
\<close>

definition is_AZ :: "char \<Rightarrow> bool" where
  "is_AZ c = ((65 :: nat) \<le> of_char c \<and> of_char c \<le> (90 :: nat))"

definition is_09 :: "char \<Rightarrow> bool" where
  "is_09 c = ((48 :: nat) \<le> of_char c \<and> of_char c \<le> (57 :: nat))"

definition upper_char :: "char \<Rightarrow> char" where
  "upper_char c =
     (if (97 :: nat) \<le> of_char c \<and> of_char c \<le> (122 :: nat)
      then char_of (of_char c - (32 :: nat)) else c)"

definition py_upper :: "string \<Rightarrow> string" where
  "py_upper text = map upper_char text"

text \<open>\<open>re.sub(r'[^A-Z0-9]', '', s)\<close> deletes every character outside the two ranges.\<close>

definition strip_non_alnum :: "string \<Rightarrow> string" where
  "strip_non_alnum s = filter (\<lambda>c. is_AZ c \<or> is_09 c) s"

text \<open>
  \<open>re.match(r'^[A-Z]{2}\d{2}[A-Z]{1,2}\d{4}$', s)\<close> on a string of the characters
  \<open>A-Z0-9\<close>. \<open>match_class P n s\<close> consumes exactly \<open>n\<close> characters of the class \<open>P\<close> and
  returns the rest; the greedy \<open>{1,2}\<close> tries two letters first and then one.
\<close>

fun match_class :: "(char \<Rightarrow> bool) \<Rightarrow> nat \<Rightarrow> string \<Rightarrow> string option" where
  "match_class P 0 s = Some s"
| "match_class P (Suc n) [] = None"
| "match_class P (Suc n) (c # cs) = (if P c then match_class P n cs else None)"

definition match_tail :: "string \<Rightarrow> bool" where
  "match_tail s = (match_class is_09 4 s = Some [])"

definition indian_plate_pattern :: "string \<Rightarrow> bool" where
  "indian_plate_pattern s =
     (case match_class is_AZ 2 s of
        None \<Rightarrow> False
      | Some r1 \<Rightarrow>
          (case match_class is_09 2 r1 of
             None \<Rightarrow> False
           | Some r2 \<Rightarrow>
               (case match_class is_AZ 2 r2 of
                  Some r3 \<Rightarrow> match_tail r3
                | None \<Rightarrow> False)
               \<or> (case match_class is_AZ 1 r2 of
                     Some r3 \<Rightarrow> match_tail r3
                   | None \<Rightarrow> False)))"

definition normalize_plate_text :: "string \<Rightarrow> string" where
  "normalize_plate_text text =
     (if text = [] then ''UNKNOWN''
      else
        (let clean_text = strip_non_alnum (py_upper text)
         in if indian_plate_pattern clean_text then clean_text
            else if 8 \<le> length clean_text \<and> length clean_text \<le> 10 then clean_text
            else if length clean_text < 5 then ''UNKNOWN'' else clean_text))"

text \<open>
  The normalizer in the words of the specification: the plate grammar as two letters,
  two digits, one or two letters and four digits, and the four-way decision on the
  cleaned string.
\<close>

definition spec_plate_grammar :: "string \<Rightarrow> bool" where
  "spec_plate_grammar s =
     ((length s = 9 \<or> length s = 10)
      \<and> list_all is_AZ (take 2 s)
      \<and> list_all is_09 (take 2 (drop 2 s))
      \<and> list_all is_AZ (take (length s - 8) (drop 4 s))
      \<and> list_all is_09 (drop (length s - 4) s))"

definition spec_normalize :: "string \<Rightarrow> string" where
  "spec_normalize text =
     (let cleaned = strip_non_alnum (py_upper text)
      in if spec_plate_grammar cleaned then cleaned
         else if 8 \<le> length cleaned \<and> length cleaned \<le> 10 then cleaned
         else if length cleaned < 5 then ''UNKNOWN''
         else cleaned)"

section \<open>Fine policy (rules.py)\<close>

text \<open>
  \<open>FIRST_OFFENSE_FINE\<close> and \<open>REPEAT_OFFENSE_FINE\<close> come from \<open>configs.config\<close> and
  \<open>db.count_previous_violations\<close> from \<open>db.models\<close>; they are parameters here, the database
  being the lookup from a vehicle number to its count.
\<close>

definition compute_fine :: "int \<Rightarrow> int \<Rightarrow> (string \<Rightarrow> int) \<Rightarrow> string \<Rightarrow> string \<Rightarrow> int" where
  "compute_fine first_offense_fine repeat_offense_fine count_previous_violations
       vehicle_no violation_type =
     (let previous_violations = count_previous_violations vehicle_no
      in if previous_violations = 0 then first_offense_fine else repeat_offense_fine)"

section \<open>Running totals (app.py, enhanced\_pdf.py)\<close>

text \<open>
  A violation is represented by the string under its key \<open>type\<close>, which every violation
  dictionary of \<open>detect.py\<close> and \<open>ai_detector.py\<close> has. The loop of \<open>process_demo_image\<close>
  and the inner loop of \<open>process_demo_video\<close> are the same \<open>if\<close>/\<open>elif\<close> chain without
  \<open>else\<close>.
\<close>

primrec total_fine_loop :: "string list \<Rightarrow> int \<Rightarrow> int" where
  "total_fine_loop [] total_fine = total_fine"
| "total_fine_loop (vtype # violations) total_fine =
     total_fine_loop violations
       (if vtype = ''helmet_violation'' then total_fine + 500
        else if vtype = ''triple_riding'' then total_fine + 1000
        else total_fine)"

definition process_demo_image_total :: "string list \<Rightarrow> int" where
  "process_demo_image_total violations = total_fine_loop violations 0"

primrec timeline_loop :: "string list list \<Rightarrow> int \<Rightarrow> int" where
  "timeline_loop [] total_fine = total_fine"
| "timeline_loop (frame_data # violations_timeline) total_fine =
     timeline_loop violations_timeline (total_fine_loop frame_data total_fine)"

definition process_demo_video_total :: "string list list \<Rightarrow> int" where
  "process_demo_video_total violations_timeline = timeline_loop violations_timeline 0"

text \<open>The table of \<open>enhanced_pdf.py\<close> and its loop with \<open>FINES.get(v_type, 500)\<close>.\<close>

definition FINES :: "string \<rightharpoonup> int" where
  "FINES = [''helmet_violation'' \<mapsto> 500, ''no_helmet'' \<mapsto> 1000, ''triple_riding'' \<mapsto> 1000]"

primrec pdf_total_loop :: "string list \<Rightarrow> int \<Rightarrow> int" where
  "pdf_total_loop [] total_fine = total_fine"
| "pdf_total_loop (v_type # violations) total_fine =
     (let fine_amt = (case FINES v_type of Some a \<Rightarrow> a | None \<Rightarrow> 500)
      in pdf_total_loop violations (total_fine + fine_amt))"

definition generate_enhanced_pdf_total :: "string list \<Rightarrow> int" where
  "generate_enhanced_pdf_total violations = pdf_total_loop violations 0"

text \<open>
  The lists of types the three totals receive. \<open>ai_detector.detect_violations\<close> rebuilds
  every violation of the detector with its type name normalised; \<open>process_demo_image\<close>
  and the PDF report read that list, \<open>process_demo_video\<close> reads the detector's own
  dictionaries. \<open>_fallback_detection\<close> appends a helmet violation for each of the first two
  contours in the area range, and \<open>simulate_demo_detection\<close> picks one of four fixed
  scenarios.
\<close>

definition normalize_type :: "string \<Rightarrow> string" where
  "normalize_type vtype =
     (if vtype = ''NO_HELMET'' \<or> vtype = ''no_helmet'' then ''helmet_violation''
      else if vtype = ''TRIPLE_RIDING'' then ''triple_riding''
      else vtype)"

definition formatted_violations :: "violation list \<Rightarrow> string list" where
  "formatted_violations vs = map (\<lambda>v. normalize_type (type_of_violation v)) vs"

definition timeline_violations :: "violation list list \<Rightarrow> string list list" where
  "timeline_violations frames = map (map type_of_violation) (filter (\<lambda>vs. vs \<noteq> []) frames)"

definition fallback_detection :: "nat \<Rightarrow> string list" where
  "fallback_detection vehicle_count = replicate (min vehicle_count 2) ''helmet_violation''"

definition scenarios :: "string list list" where
  "scenarios =
     [[''helmet_violation''], [''triple_riding''], [''helmet_violation'', ''triple_riding''], []]"

text \<open>
  The flat type table in the words of the specification, the amounts the two loops of
  \<open>app.py\<close> add, and the amounts the PDF loop adds.
\<close>

definition spec_flat_amount :: "string \<Rightarrow> int" where
  "spec_flat_amount t =
     (if t = ''helmet_violation'' then 500 else if t = ''triple_riding'' then 1000 else 500)"

definition spec_total :: "string list \<Rightarrow> int" where
  "spec_total ts = sum_list (map spec_flat_amount ts)"

definition app_amount :: "string \<Rightarrow> int" where
  "app_amount t =
     (if t = ''helmet_violation'' then 500 else if t = ''triple_riding'' then 1000 else 0)"

definition pdf_amount :: "string \<Rightarrow> int" where
  "pdf_amount t =
     (if t = ''helmet_violation'' then 500
      else if t = ''triple_riding'' \<or> t = ''no_helmet'' then 1000 else 500)"

definition known_type :: "string \<Rightarrow> bool" where
  "known_type t = (t = ''helmet_violation'' \<or> t = ''triple_riding'')"

section \<open>Frame timestamps (video\_processor.py, worker.py)\<close>

text \<open>
  \<open>cap.get(cv2.CAP_PROP_FPS)\<close> is a float: a finite value, a NaN or an infinity. \<open>int\<close>
  of a NaN raises \<open>ValueError\<close> and of an infinity \<open>OverflowError\<close>; a float division
  raises \<open>ZeroDivisionError\<close> only when the divisor is zero.
\<close>

datatype py_error = ZeroDivisionError | ValueError | OverflowError

datatype py_float = Finite real | NaN | PosInf | NegInf

definition int_of_float :: "py_float \<Rightarrow> py_error + int" where
  "int_of_float x =
     (case x of Finite r \<Rightarrow> Inr (py_int r) | NaN \<Rightarrow> Inl ValueError
      | PosInf \<Rightarrow> Inl OverflowError | NegInf \<Rightarrow> Inl OverflowError)"

definition py_truediv :: "real \<Rightarrow> real \<Rightarrow> py_error + real" where
  "py_truediv a b = (if b = 0 then Inl ZeroDivisionError else Inr (a / b))"

text \<open>
  \<open>video_processor.py\<close> reads \<open>fps = int(cap.get(cv2.CAP_PROP_FPS))\<close> and computes
  \<open>frame_idx / fps if fps > 0 else frame_idx\<close>; \<open>fps_raw\<close> is the value the frame source
  reports and \<open>frame_idx\<close> counts from 0.
\<close>

definition video_processor_timestamp :: "py_float \<Rightarrow> nat \<Rightarrow> py_error + real" where
  "video_processor_timestamp fps_raw frame_idx =
     (case int_of_float fps_raw of
        Inl e \<Rightarrow> Inl e
      | Inr fps \<Rightarrow>
          if 0 < fps then py_truediv (real frame_idx) (real_of_int fps)
          else Inr (real frame_idx))"

text \<open>
  \<open>worker.py\<close> keeps the reported float, \<open>fps = cap.get(cv2.CAP_PROP_FPS)\<close>, and computes
  \<open>frame_count / fps\<close> with no guard; \<open>frame_count\<close> is the number of frames read so far.
  Dividing by a NaN gives a NaN and by an infinity gives zero.
\<close>

definition worker_timestamp :: "py_float \<Rightarrow> nat \<Rightarrow> py_error + py_float" where
  "worker_timestamp fps frame_count =
     (case fps of
        Finite r \<Rightarrow>
          (case py_truediv (real frame_count) r of
             Inl e \<Rightarrow> Inl e
           | Inr q \<Rightarrow> Inr (Finite q))
      | NaN \<Rightarrow> Inr NaN
      | PosInf \<Rightarrow> Inr (Finite 0)
      | NegInf \<Rightarrow> Inr (Finite 0))"

text \<open>The timestamp in the words of the specification, for a finite reported fps.\<close>

definition spec_timestamp :: "real \<Rightarrow> nat \<Rightarrow> real" where
  "spec_timestamp fps i = (if 0 < fps then real i / fps else real i)"

section \<open>Single-image pipeline (app.py)\<close>















record demo_result =
  violations_found :: bool
  violations :: "string list"
  license_plate :: string
  total_fine :: int
  is_vehicle_image :: bool





section \<open>Properties of the geometry primitives\<close>

lemma iou_union_nonzero: "iou_union a b \<noteq> 0"
proof
  assume h: "iou_union a b = 0"
  define k where "k = bbox_area a + bbox_area b - iou_inter a b"
  from h have eq: "real_of_int k = - (1 / 1000000)"
    unfolding iou_union_def k_def by linarith
  have "k = 0 \<or> 1 \<le> \<bar>k\<bar>"
    by linarith
  then have "real_of_int k = 0 \<or> 1 \<le> \<bar>real_of_int k\<bar>"
    by (metis of_int_0 of_int_1 of_int_abs of_int_le_iff)
  with eq show False
    by auto
qed

lemma iou_inter_unfold:
  "iou_inter (ax1, ay1, ax2, ay2) (bx1, by1, bx2, by2) =
     max 0 (min ax2 bx2 - max ax1 bx1) * max 0 (min ay2 by2 - max ay1 by1)"
  by (simp only: iou_inter.simps Let_def)

lemma iou_inter_commute: "iou_inter a b = iou_inter b a"
proof (cases a)
  case A: (fields ax1 ay1 ax2 ay2)
  show ?thesis
  proof (cases b)
    case B: (fields bx1 by1 bx2 by2)
    show ?thesis
      unfolding A B iou_inter_unfold
      by (simp only: min.commute [of ax2] max.commute [of ax1] min.commute [of ay2] max.commute [of ay1])
  qed
qed

lemma iou_commute: "iou a b = iou b a"
proof -
  have "bbox_area a + bbox_area b = bbox_area b + bbox_area a"
    by (rule add.commute)
  then show ?thesis
    by (simp only: iou_def iou_union_def iou_inter_commute [of a b])
qed

lemma iou_inter_self: "well_formed a \<Longrightarrow> iou_inter a a = bbox_area a"
proof (cases a)
  case A: (fields x1 y1 x2 y2)
  assume "well_formed a"
  then have "max 0 (x2 - x1) = x2 - x1" "max 0 (y2 - y1) = y2 - y1"
    by (simp_all add: A)
  then show ?thesis
    unfolding A iou_inter_unfold by (simp only: min.idem max.idem bbox_area.simps)
qed

lemma iou_inter_zero_area: "well_formed a \<Longrightarrow> bbox_area a = 0 \<Longrightarrow> iou_inter a b = 0"
proof (cases a)
  case A: (fields ax1 ay1 ax2 ay2)
  assume wf: "well_formed a" and z: "bbox_area a = 0"
  show ?thesis
  proof (cases b)
    case B: (fields bx1 by1 bx2 by2)
    define W where "W = max 0 (min ax2 bx2 - max ax1 bx1)"
    define H where "H = max 0 (min ay2 by2 - max ay1 by1)"
    from z A have "ax2 = ax1 \<or> ay2 = ay1" by simp
    then have "W = 0 \<or> H = 0"
      unfolding W_def H_def by linarith
    then have "W * H = 0" by auto
    then show ?thesis
      unfolding A B iou_inter_unfold W_def H_def .
  qed
qed

lemma iou_inter_disjoint:
  assumes "\<not> (\<exists>p. point_inside a p \<and> point_inside b p)"
  shows "iou_inter a b = 0"
proof (cases a)
  case A: (fields ax1 ay1 ax2 ay2)
  show ?thesis
  proof (cases b)
    case B: (fields bx1 by1 bx2 by2)
    define x where "x = max ax1 bx1"
    define y where "y = max ay1 by1"
    define W where "W = max 0 (min ax2 bx2 - x)"
    define H where "H = max 0 (min ay2 by2 - y)"
    have "\<not> (point_inside a (real_of_int x, real_of_int y) \<and> point_inside b (real_of_int x, real_of_int y))"
      using assms by blast
    then have "\<not> (ax1 \<le> x \<and> x \<le> ax2 \<and> ay1 \<le> y \<and> y \<le> ay2 \<and> bx1 \<le> x \<and> x \<le> bx2 \<and> by1 \<le> y \<and> y \<le> by2)"
      by (simp add: A B)
    moreover have "ax1 \<le> x" "bx1 \<le> x" "ay1 \<le> y" "by1 \<le> y"
      by (simp_all add: x_def y_def)
    ultimately have "\<not> (x \<le> ax2 \<and> x \<le> bx2) \<or> \<not> (y \<le> ay2 \<and> y \<le> by2)"
      by blast
    then have "W = 0 \<or> H = 0"
      unfolding W_def H_def by linarith
    then have "W * H = 0" by auto
    then show ?thesis
      unfolding A B iou_inter_unfold W_def H_def x_def y_def .
  qed
qed

lemma iou_self_pos_area:
  assumes "well_formed a" "0 < bbox_area a"
  shows "approx_one (iou a a)"
proof -
  define n where "n = real_of_int (bbox_area a)"
  have n1: "1 \<le> n" using assms(2) by (simp add: n_def)
  have "iou a a = n / (n + 1 / 1000000)"
    by (simp add: iou_def iou_union_def iou_inter_self [OF assms(1)] n_def)
  also have "\<dots> - 1 = - (1 / 1000000) / (n + 1 / 1000000)"
    using n1 by (simp add: field_simps)
  finally have d: "iou a a - 1 = - (1 / 1000000) / (n + 1 / 1000000)" by simp
  have "\<bar>- (1 / 1000000) / (n + 1 / 1000000)\<bar> = (1 / 1000000) / (n + 1 / 1000000)"
    using n1 by simp
  also have "\<dots> < 1 / 1000000"
    using n1 by (simp add: field_simps)
  finally show ?thesis
    by (simp add: approx_one_def d)
qed

lemma assign_riders_loop_filter:
  "assign_riders_loop b ps acc = acc @ filter (\<lambda>pb. point_inside b (bbox_center pb)) ps"
  by (induction ps arbitrary: acc) simp_all

lemma assign_riders_filter:
  "assign_riders_to_bike b ps = filter (\<lambda>pb. point_inside b (bbox_center pb)) ps"
  by (simp add: assign_riders_to_bike_def assign_riders_loop_filter)

lemma has_helmet_loop_ex: "has_helmet_loop head hbs = (\<exists>hb \<in> set hbs. 0 < iou head hb)"
  by (induction hbs) simp_all

lemma iou_zero_of_inter: "iou_inter a b = 0 \<Longrightarrow> iou a b = 0"
  by (simp add: iou_def)

text \<open>
  Claim C9 (amended). For well-formed boxes \<open>A\<close> and \<open>B\<close>: \<open>iou\<close> is symmetric;
  \<open>iou A A\<close> is within \<open>10\<^sup>-\<^sup>6\<close> of 1 when \<open>A\<close> has positive area and is 0 when
  \<open>A\<close> has zero area; two boxes with no common point have \<open>iou\<close> 0; and a box of zero
  area has \<open>iou\<close> 0 with every box, on either side.
\<close>

theorem iou_properties:
  assumes "well_formed A" and "well_formed B"
  shows "iou A B = iou B A
     \<and> (0 < bbox_area A \<longrightarrow> approx_one (iou A A))
     \<and> (bbox_area A = 0 \<longrightarrow> iou A A = 0)
     \<and> (\<not> (\<exists>p. point_inside A p \<and> point_inside B p) \<longrightarrow> iou A B = 0)
     \<and> (bbox_area A = 0 \<longrightarrow> iou A B = 0 \<and> iou B A = 0)"
proof -
  have c1: "iou A B = iou B A" by (rule iou_commute)
  have c2: "0 < bbox_area A \<longrightarrow> approx_one (iou A A)"
    using assms(1) iou_self_pos_area by blast
  have z: "bbox_area A = 0 \<Longrightarrow> iou A X = 0" for X
    using assms(1) by (simp add: iou_zero_of_inter iou_inter_zero_area)
  have c4: "\<not> (\<exists>p. point_inside A p \<and> point_inside B p) \<longrightarrow> iou A B = 0"
    using iou_zero_of_inter iou_inter_disjoint by blast
  have c5: "bbox_area A = 0 \<longrightarrow> iou A B = 0 \<and> iou B A = 0"
    using z [of B] c1 by simp
  from c1 c2 z [of A] c4 c5 show ?thesis by blast
qed

theorem iou_properties_witness:
  "iou (0, 0, 2, 2) (5, 5, 6, 6) = iou (5, 5, 6, 6) (0, 0, 2, 2)
     \<and> approx_one (iou (0, 0, 2, 2) (0, 0, 2, 2))
     \<and> iou (0, 0, 2, 2) (5, 5, 6, 6) = 0
     \<and> iou (0, 0, 0, 5) (0, 0, 0, 5) = 0
     \<and> iou (0, 0, 0, 5) (0, 0, 2, 2) = 0 \<and> iou (0, 0, 2, 2) (0, 0, 0, 5) = 0"
proof -
  have d: "\<not> (\<exists>p. point_inside (0, 0, 2, 2) p \<and> point_inside (5, 5, 6, 6) p)"
    by auto
  have w: "well_formed (0, 0, 2, 2)" "well_formed (5, 5, 6, 6)" "well_formed (0, 0, 0, 5)"
    by simp_all
  have a: "0 < bbox_area (0, 0, 2, 2)" "bbox_area (0, 0, 0, 5) = 0"
    by simp_all
  show ?thesis
    using iou_properties [OF w(1) w(2)] iou_properties [OF w(3) w(1)] d a
    by blast
qed

text \<open>
  Claim C9 as stated also asks \<open>iou A A\<close> to be approximately 1 for a well-formed box
  of zero area; there the intersection is 0 and the quotient is exactly 0.
\<close>

theorem iou_self_degenerate_counterexample:
  "well_formed (0, 0, 0, 0) \<and> iou (0, 0, 0, 0) (0, 0, 0, 0) = 0
     \<and> \<not> approx_one (iou (0, 0, 0, 0) (0, 0, 0, 0))"
  by (simp add: iou_def approx_one_def)

text \<open>
  Claim C3. \<open>has_helmet_for_person P H\<close> is true exactly when some helmet box of \<open>H\<close>
  has IoU strictly greater than 0 with \<open>head_region P\<close>; with no helmet boxes it is
  false.
\<close>

theorem has_helmet_iff:
  "has_helmet_for_person P H = (\<exists>hb \<in> set H. 0 < iou (head_region P) hb)
     \<and> has_helmet_for_person P [] = False"
  by (simp add: has_helmet_for_person_def has_helmet_loop_ex)

lemma head_eval: "head_region (0, 0, 10, 10) = (0, 0, 10, 3)"
  by (simp add: py_int_def)

lemma iou_eval_b: "iou (0, 0, 10, 3) (0, 0, 5, 5) = 15 / (40 + 1 / 1000000)"
  by (simp add: iou_def iou_union_def)

theorem has_helmet_iff_witness:
  "has_helmet_for_person (0, 0, 10, 10) [(0, 0, 5, 5)]
     \<and> \<not> has_helmet_for_person (0, 0, 10, 10) []"
proof -
  have "0 < iou (head_region (0, 0, 10, 10)) (0, 0, 5, 5)"
    by (simp only: head_eval iou_eval_b) simp
  then show ?thesis
    using has_helmet_iff [of "(0, 0, 10, 10)" "[(0, 0, 5, 5)]"]
      has_helmet_iff [of "(0, 0, 10, 10)" "[]"]
    by (simp del: head_region.simps)
qed

section \<open>Properties of the violation classifier\<close>

lemma rider_loop_append:
  "rider_loop b hs rs vs =
     vs @ map (\<lambda>r. Helmet_violation r b (85 / 100)) (filter (\<lambda>r. \<not> has_helmet_for_person r hs) rs)"
  by (induction rs arbitrary: vs) simp_all

lemma bike_loop_append:
  "bike_loop mt ps hs bs vs =
     vs @ concat (map (\<lambda>b. triple_part ps b @ helmet_part mt ps hs b) bs)"
proof (induction bs arbitrary: vs)
  case Nil
  show ?case by simp
next
  case (Cons b bs)
  show ?case
    by (simp add: Cons.IH Let_def assign_riders_filter rider_loop_append triple_part_def
        helmet_part_def del: point_inside.simps bbox_center.simps)
qed

lemma classify_eq:
  "classify mt st =
     (if mt = custom_indonesian then direct_violations st else [])
       @ concat (map (\<lambda>b. triple_part (persons st) b @ helmet_part mt (persons st) (helmets st) b)
           (bikes st))"
  by (simp add: classify_def bike_loop_append)

lemma organize_step_persons:
  "persons (organize_step mt box st) =
     persons st @ (if is_person_cls mt (cls_name box) then [bbox box] else [])"
  by (simp add: organize_step_def is_person_cls_def)

lemma organize_step_bikes:
  "bikes (organize_step mt box st) =
     bikes st @ (if is_bike_cls mt (cls_name box) then [bbox box] else [])"
  by (simp add: organize_step_def is_bike_cls_def)

lemma organize_step_direct:
  "direct_violations (organize_step mt box st) =
     direct_violations st
       @ (if is_direct_cls mt (cls_name box) then [Direct_violation (bbox box) (conf box)] else [])"
  by (simp add: organize_step_def is_direct_cls_def)

lemma organize_loop_persons:
  "persons (organize_loop mt boxes st) =
     persons st @ map bbox (filter (\<lambda>d. is_person_cls mt (cls_name d)) boxes)"
  by (induction boxes arbitrary: st) (simp_all add: organize_step_persons)

lemma organize_loop_bikes:
  "bikes (organize_loop mt boxes st) =
     bikes st @ map bbox (filter (\<lambda>d. is_bike_cls mt (cls_name d)) boxes)"
  by (induction boxes arbitrary: st) (simp_all add: organize_step_bikes)

lemma organize_loop_direct:
  "direct_violations (organize_loop mt boxes st) =
     direct_violations st
       @ map (\<lambda>d. Direct_violation (bbox d) (conf d))
           (filter (\<lambda>d. is_direct_cls mt (cls_name d)) boxes)"
  by (induction boxes arbitrary: st) (simp_all add: organize_step_direct)

lemma organize_persons:
  "persons (organize mt boxes) = map bbox (filter (\<lambda>d. is_person_cls mt (cls_name d)) boxes)"
  by (simp add: organize_def organize_loop_persons no_detections_def)

lemma organize_bikes:
  "bikes (organize mt boxes) = map bbox (filter (\<lambda>d. is_bike_cls mt (cls_name d)) boxes)"
  by (simp add: organize_def organize_loop_bikes no_detections_def)

lemma organize_direct:
  "direct_violations (organize mt boxes) =
     map (\<lambda>d. Direct_violation (bbox d) (conf d))
       (filter (\<lambda>d. is_direct_cls mt (cls_name d)) boxes)"
  by (simp add: organize_def organize_loop_direct no_detections_def)

lemma filter_triple_for_direct:
  "filter (triple_for b) (map (\<lambda>d. Direct_violation (bbox d) (conf d)) ds) = []"
  by (induction ds) simp_all

lemma filter_triple_for_helmets:
  "filter (triple_for b) (map (\<lambda>r. Helmet_violation r b' c) rs) = []"
  by (induction rs) simp_all

lemma filter_triple_for_helmet_part: "filter (triple_for b) (helmet_part mt ps hs b') = []"
  by (simp add: helmet_part_def filter_triple_for_helmets)

lemma filter_triple_for_triple_part:
  "filter (triple_for b) (triple_part ps b') = (if b' = b then triple_part ps b else [])"
  by (simp add: triple_part_def Let_def)

lemma filter_triple_for_bikes:
  "filter (triple_for b) (concat (map (\<lambda>b'. triple_part ps b' @ helmet_part mt ps hs b') bs)) =
     concat (replicate (count_list bs b) (triple_part ps b))"
  by (induction bs) (simp_all add: filter_triple_for_helmet_part filter_triple_for_triple_part)

lemma concat_replicate_single: "concat (replicate k [x]) = replicate k x"
  by (induction k) simp_all

lemma concat_replicate_nil: "concat (replicate k []) = []"
  by (induction k) simp_all

text \<open>
  Claim C1. Let \<open>n\<close> be the number of person boxes whose centre lies inside the vehicle
  box \<open>b\<close>. The triple-riding violations of the output that carry \<open>b\<close> are, when
  \<open>3 \<le> n\<close>, exactly one per detection of \<open>b\<close> in the vehicle list, each with rider count
  \<open>n\<close> and confidence 0.90; when \<open>n < 3\<close> there is none.
\<close>

theorem triple_riding_per_vehicle:
  "(let st = organize mt boxes;
        n = length (filter (\<lambda>p. point_inside b (bbox_center p)) (persons st))
    in filter (triple_for b) (yolo_advanced_detection mt boxes) =
         (if 3 \<le> n then replicate (count_list (bikes st) b) (Triple_riding b n (90 / 100))
          else []))"
proof -
  define st where "st = organize mt boxes"
  define n where "n = length (filter (\<lambda>p. point_inside b (bbox_center p)) (persons st))"
  have d: "filter (triple_for b) (direct_violations st) = []"
    by (simp only: st_def organize_direct filter_triple_for_direct)
  have "filter (triple_for b) (yolo_advanced_detection mt boxes) =
          concat (replicate (count_list (bikes st) b) (triple_part (persons st) b))"
    by (simp add: yolo_advanced_detection_def classify_eq st_def [symmetric] d
        filter_triple_for_bikes)
  also have "\<dots> = (if 3 \<le> n then replicate (count_list (bikes st) b) (Triple_riding b n (90 / 100))
          else [])"
    by (simp only: triple_part_def Let_def n_def [symmetric] concat_replicate_single
        concat_replicate_nil if_distrib [of "\<lambda>x. concat (replicate (count_list (bikes st) b) x)"])
  finally show ?thesis
    by (simp only: Let_def st_def [symmetric] n_def [symmetric])
qed

lemma organize_custom_bikes: "bikes (organize custom_indonesian boxes) = []"
  by (simp add: organize_bikes is_bike_cls_def)

lemma bike_loop_custom_spatial:
  "filter is_spatial_helmet (bike_loop custom_indonesian ps hs bs vs) = filter is_spatial_helmet vs"
  by (induction bs arbitrary: vs) (simp_all add: Let_def)

lemma direct_type_conf:
  "map confidence (filter (\<lambda>v. type_of_violation v = ''helmet_violation'')
       (map (\<lambda>d. Direct_violation (bbox d) (conf d)) ds)) = map conf ds"
  by (induction ds) simp_all

lemma direct_not_spatial:
  "filter is_spatial_helmet (map (\<lambda>d. Direct_violation (bbox d) (conf d)) ds) = []"
  by (induction ds) simp_all

text \<open>
  Claim C2. With the custom model, the output is exactly one helmet violation per
  \<open>tanpahelm\<close> detection, in detection order, with that detection's own box and
  confidence; the box is also appended to the person list used for rider counting; the
  vehicle loop emits no spatially-derived helmet violation in that mode, whatever the
  detection lists are; so the helmet violations of the frame are as many as its
  \<open>tanpahelm\<close> detections and carry their confidences.
\<close>

theorem direct_violation_mode:
  "yolo_advanced_detection custom_indonesian boxes =
       map (\<lambda>d. Direct_violation (bbox d) (conf d)) (filter (\<lambda>d. cls_name d = ''tanpahelm'') boxes)
     \<and> persons (organize custom_indonesian boxes) =
       map bbox (filter (\<lambda>d. cls_name d = ''pengendara'' \<or> cls_name d = ''tanpahelm'') boxes)
     \<and> filter is_spatial_helmet (yolo_advanced_detection custom_indonesian boxes) = []
     \<and> filter is_spatial_helmet (bike_loop custom_indonesian ps hs bs []) = []
     \<and> map confidence (filter (\<lambda>v. type_of_violation v = ''helmet_violation'')
           (yolo_advanced_detection custom_indonesian boxes)) =
         map conf (filter (\<lambda>d. cls_name d = ''tanpahelm'') boxes)"
proof -
  have out: "yolo_advanced_detection custom_indonesian boxes =
       map (\<lambda>d. Direct_violation (bbox d) (conf d)) (filter (\<lambda>d. cls_name d = ''tanpahelm'') boxes)"
    by (simp add: yolo_advanced_detection_def classify_eq organize_custom_bikes organize_direct
        is_direct_cls_def)
  have ps: "persons (organize custom_indonesian boxes) =
       map bbox (filter (\<lambda>d. cls_name d = ''pengendara'' \<or> cls_name d = ''tanpahelm'') boxes)"
    by (simp add: organize_persons is_person_cls_def)
  have sp: "filter is_spatial_helmet (bike_loop custom_indonesian ps hs bs []) = []"
    by (simp add: bike_loop_custom_spatial)
  show ?thesis
    by (simp only: out ps sp direct_type_conf direct_not_spatial simp_thms)
qed

text \<open>
  Claim C4 (amended). The output is the direct violations (custom model only), in
  detection order, followed by one block per vehicle in vehicle-detection order; a
  vehicle's block is its triple-riding violation, when it has one, followed by the
  helmet violations of its riders in rider order (standard models only).
\<close>

theorem violation_order:
  "(let st = organize mt boxes
    in yolo_advanced_detection mt boxes =
         (if mt = custom_indonesian then direct_violations st else [])
           @ concat (map (\<lambda>b. triple_part (persons st) b
                                 @ helmet_part mt (persons st) (helmets st) b) (bikes st))
       \<and> direct_violations st =
           map (\<lambda>d. Direct_violation (bbox d) (conf d))
             (filter (\<lambda>d. mt = custom_indonesian \<and> cls_name d = ''tanpahelm'') boxes))"
  by (simp add: Let_def yolo_advanced_detection_def classify_eq organize_direct is_direct_cls_def)

text \<open>
  Claim C4 as stated puts the triple-riding violations of all vehicles before every
  spatially-derived helmet violation. A frame with two vehicles, the first with one rider
  without helmet and the second with three riders, yields the first vehicle's helmet
  violation before the second vehicle's triple-riding violation.
\<close>

lemma two_bikes_output:
  "yolo_advanced_detection yolov8n
     [\<lparr>cls_name = ''motorbike'', bbox = (0, 0, 10, 10), conf = 8 / 10\<rparr>,
      \<lparr>cls_name = ''person'', bbox = (2, 2, 4, 4), conf = 7 / 10\<rparr>,
      \<lparr>cls_name = ''motorbike'', bbox = (100, 100, 200, 200), conf = 8 / 10\<rparr>,
      \<lparr>cls_name = ''person'', bbox = (110, 110, 120, 120), conf = 7 / 10\<rparr>,
      \<lparr>cls_name = ''person'', bbox = (130, 130, 140, 140), conf = 7 / 10\<rparr>,
      \<lparr>cls_name = ''person'', bbox = (150, 150, 160, 160), conf = 7 / 10\<rparr>]
   = [Helmet_violation (2, 2, 4, 4) (0, 0, 10, 10) (85 / 100),
      Triple_riding (100, 100, 200, 200) 3 (90 / 100),
      Helmet_violation (110, 110, 120, 120) (100, 100, 200, 200) (85 / 100),
      Helmet_violation (130, 130, 140, 140) (100, 100, 200, 200) (85 / 100),
      Helmet_violation (150, 150, 160, 160) (100, 100, 200, 200) (85 / 100)]"
  by (simp add: yolo_advanced_detection_def organize_def no_detections_def organize_step_def
      classify_def Let_def assign_riders_to_bike_def has_helmet_for_person_def)

theorem violation_order_counterexample:
  "\<not> claimed_order (yolo_advanced_detection yolov8n
     [\<lparr>cls_name = ''motorbike'', bbox = (0, 0, 10, 10), conf = 8 / 10\<rparr>,
      \<lparr>cls_name = ''person'', bbox = (2, 2, 4, 4), conf = 7 / 10\<rparr>,
      \<lparr>cls_name = ''motorbike'', bbox = (100, 100, 200, 200), conf = 8 / 10\<rparr>,
      \<lparr>cls_name = ''person'', bbox = (110, 110, 120, 120), conf = 7 / 10\<rparr>,
      \<lparr>cls_name = ''person'', bbox = (130, 130, 140, 140), conf = 7 / 10\<rparr>,
      \<lparr>cls_name = ''person'', bbox = (150, 150, 160, 160), conf = 7 / 10\<rparr>])"
  by (simp only: two_bikes_output claimed_order_def) simp

section \<open>Properties of the plate normalizer\<close>

lemma match_class_take_drop:
  "match_class P n s =
     (if n \<le> length s \<and> list_all P (take n s) then Some (drop n s) else None)"
  by (induction P n s rule: match_class.induct) simp_all

lemma match_tail_iff: "match_tail s = (length s = 4 \<and> list_all is_09 s)"
  by (auto simp: match_tail_def match_class_take_drop)

lemma case_if_Some: "(case (if c then Some x else None) of None \<Rightarrow> False | Some r \<Rightarrow> f r) = (c \<and> f x)"
  by simp

lemma pattern_steps:
  "indian_plate_pattern s =
     ((2 \<le> length s \<and> list_all is_AZ (take 2 s))
      \<and> (2 \<le> length (drop 2 s) \<and> list_all is_09 (take 2 (drop 2 s)))
      \<and> (((2 \<le> length (drop 2 (drop 2 s)) \<and> list_all is_AZ (take 2 (drop 2 (drop 2 s))))
            \<and> length (drop 2 (drop 2 (drop 2 s))) = 4
            \<and> list_all is_09 (drop 2 (drop 2 (drop 2 s))))
         \<or> ((1 \<le> length (drop 2 (drop 2 s)) \<and> list_all is_AZ (take 1 (drop 2 (drop 2 s))))
            \<and> length (drop 1 (drop 2 (drop 2 s))) = 4
            \<and> list_all is_09 (drop 1 (drop 2 (drop 2 s))))))"
  unfolding indian_plate_pattern_def match_class_take_drop case_if_Some match_tail_iff
  by (simp only: conj_assoc)

lemma pattern_iff_grammar: "indian_plate_pattern s = spec_plate_grammar s"
proof -
  have d: "drop 2 (drop 2 s) = drop 4 s" "drop 2 (drop 4 s) = drop 6 s" "drop 1 (drop 4 s) = drop 5 s"
    by simp_all
  consider (ten) "length s = 10" | (nine) "length s = 9" | (other) "length s \<noteq> 10 \<and> length s \<noteq> 9"
    by blast
  then show ?thesis
  proof cases
    case ten
    then show ?thesis
      unfolding pattern_steps spec_plate_grammar_def d by simp
  next
    case nine
    then show ?thesis
      unfolding pattern_steps spec_plate_grammar_def d by simp
  next
    case other
    then have "\<not> (length s - 6 = 4 \<and> 2 \<le> length s - 4)" "\<not> (length s - 5 = 4 \<and> 1 \<le> length s - 4)"
      by linarith+
    with other show ?thesis
      unfolding pattern_steps spec_plate_grammar_def d length_drop by blast
  qed
qed

lemma normalize_eq_spec: "normalize_plate_text text = spec_normalize text"
proof (cases "text = []")
  case True
  have "\<not> spec_plate_grammar []" by (simp add: spec_plate_grammar_def)
  with True show ?thesis
    by (simp add: normalize_plate_text_def spec_normalize_def py_upper_def strip_non_alnum_def)
next
  case False
  then show ?thesis
    by (simp add: normalize_plate_text_def spec_normalize_def pattern_iff_grammar Let_def)
qed

text \<open>
  Claim C5. For every raw OCR string the normalizer returns what the specified procedure
  returns: upper-case, strip every character outside \<open>A-Z0-9\<close>, then the cleaned string
  if it is two letters, two digits, one or two letters and four digits, else the cleaned
  string if its length is 8 to 10, else \<open>UNKNOWN\<close> if its length is under 5, else the
  cleaned string. The regular expression of the source accepts exactly that grammar. A
  cleaned string of 15 characters is returned as it is, and the three examples of the
  specification evaluate as stated.
\<close>

theorem normalize_plate_text_spec:
  "normalize_plate_text text = spec_normalize text
     \<and> indian_plate_pattern s = spec_plate_grammar s
     \<and> (length (strip_non_alnum (py_upper text)) = 15
          \<longrightarrow> normalize_plate_text text = strip_non_alnum (py_upper text))
     \<and> normalize_plate_text ''mh 01-ab 1234'' = ''MH01AB1234''
     \<and> normalize_plate_text ''X'' = ''UNKNOWN''
     \<and> normalize_plate_text ''ABC123456789XYZ'' = ''ABC123456789XYZ''"
proof -
  have long: "length (strip_non_alnum (py_upper text)) = 15
       \<longrightarrow> normalize_plate_text text = strip_non_alnum (py_upper text)"
    by (simp add: normalize_eq_spec spec_normalize_def spec_plate_grammar_def Let_def)
  have e1: "normalize_plate_text ''mh 01-ab 1234'' = ''MH01AB1234''"
    by code_simp
  have e2: "normalize_plate_text ''X'' = ''UNKNOWN''"
    by code_simp
  have e3: "normalize_plate_text ''ABC123456789XYZ'' = ''ABC123456789XYZ''"
    by code_simp
  from normalize_eq_spec pattern_iff_grammar long e1 e2 e3 show ?thesis
    by blast
qed

theorem normalize_plate_text_spec_witness:
  "length (strip_non_alnum (py_upper ''ABC123456789XYZ'')) = 15
     \<and> normalize_plate_text ''ABC123456789XYZ'' = strip_non_alnum (py_upper ''ABC123456789XYZ'')"
proof -
  have l: "length (strip_non_alnum (py_upper ''ABC123456789XYZ'')) = 15"
    by code_simp
  with normalize_plate_text_spec [of "''ABC123456789XYZ''"] show ?thesis
    by blast
qed


section \<open>Properties of the fine policy, the running totals and the timestamps\<close>

text \<open>
  Claim C6. \<open>compute_fine\<close> returns the first-offense amount when the history lookup
  reports 0 prior violations for the vehicle and the repeat-offense amount when it reports
  more than 0; the result does not depend on the violation type; two calls whose lookups
  report the same count for the vehicle return the same amount; and once the count of a
  first offender is incremented the repeat-offense amount is returned.
\<close>

theorem compute_fine_history:
  "(h v = 0 \<longrightarrow> compute_fine F R h v t = F)
     \<and> (0 < h v \<longrightarrow> compute_fine F R h v t = R)
     \<and> compute_fine F R h v t = compute_fine F R h v t'
     \<and> (h' v = h v \<longrightarrow> compute_fine F R h' v t' = compute_fine F R h v t)
     \<and> (h v = 0 \<longrightarrow> compute_fine F R (h(v := h v + 1)) v t' = R)"
  unfolding compute_fine_def Let_def by simp

theorem compute_fine_history_witness:
  "compute_fine 500 1000 (\<lambda>x. 0) ''KA05MN1234'' ''helmet_violation'' = 500
     \<and> compute_fine 500 1000 (\<lambda>x. 2) ''KA05MN1234'' ''triple_riding'' = 1000
     \<and> compute_fine 500 1000 ((\<lambda>x. 0)(''KA05MN1234'' := 0 + 1)) ''KA05MN1234'' ''triple_riding'' = 1000"
proof -
  have a: "(\<lambda>x::string. 0::int) ''KA05MN1234'' = 0" by (rule refl)
  have b: "0 < (\<lambda>x::string. 2::int) ''KA05MN1234''" by simp
  note t1 = compute_fine_history [where h = "\<lambda>x. 0" and v = "''KA05MN1234''" and F = 500 and R = 1000
      and t = "''helmet_violation''" and t' = "''triple_riding''"]
  note t2 = compute_fine_history [where h = "\<lambda>x. 2" and v = "''KA05MN1234''" and F = 500 and R = 1000
      and t = "''triple_riding''"]
  from t1 a have c1: "compute_fine 500 1000 (\<lambda>x. 0) ''KA05MN1234'' ''helmet_violation'' = 500"
    by blast
  from t2 b have c2: "compute_fine 500 1000 (\<lambda>x. 2) ''KA05MN1234'' ''triple_riding'' = 1000"
    by blast
  from t1 a have c3: "compute_fine 500 1000 ((\<lambda>x. 0)(''KA05MN1234'' := 0 + 1)) ''KA05MN1234'' ''triple_riding'' = 1000"
    by blast
  from c1 c2 c3 show ?thesis by blast
qed


lemma total_fine_loop_sum:
  "total_fine_loop vs acc = acc + sum_list (map app_amount vs)"
  by (induction vs arbitrary: acc) (simp_all add: app_amount_def)

lemma timeline_loop_sum:
  "timeline_loop tline acc = acc + sum_list (map app_amount (concat tline))"
  by (induction tline arbitrary: acc) (simp_all add: total_fine_loop_sum)

lemma pdf_fine_amt: "(case FINES t of Some a \<Rightarrow> a | None \<Rightarrow> 500) = pdf_amount t"
  by (simp add: FINES_def pdf_amount_def)

lemma pdf_total_loop_sum:
  "pdf_total_loop vs acc = acc + sum_list (map pdf_amount vs)"
  by (induction vs arbitrary: acc) (simp_all add: pdf_fine_amt)

lemma known_amounts:
  "known_type t \<Longrightarrow> app_amount t = spec_flat_amount t \<and> pdf_amount t = spec_flat_amount t"
  by (auto simp: known_type_def app_amount_def pdf_amount_def spec_flat_amount_def)

lemma known_sums:
  "list_all known_type ts \<Longrightarrow>
     sum_list (map app_amount ts) = spec_total ts \<and> sum_list (map pdf_amount ts) = spec_total ts"
  by (induction ts) (simp_all add: spec_total_def known_amounts)

lemma type_of_violation_known: "known_type (type_of_violation v)"
  by (cases v) (simp_all add: known_type_def)

lemma normalize_known: "known_type t \<Longrightarrow> normalize_type t = t"
  by (auto simp: known_type_def normalize_type_def)

lemma formatted_known: "list_all known_type (formatted_violations vs)"
  by (simp add: formatted_violations_def list_all_iff normalize_known type_of_violation_known)

lemma timeline_known: "list_all known_type (concat (timeline_violations frames))"
  by (simp add: timeline_violations_def list_all_iff type_of_violation_known)

lemma fallback_known: "list_all known_type (fallback_detection n)"
  by (simp add: fallback_detection_def list_all_iff known_type_def)

lemma scenarios_known: "list_all (list_all known_type) scenarios"
  by (simp add: scenarios_def known_type_def)

text \<open>
  Claim C7. On every list of violations the totals receive, the running total of
  \<open>process_demo_image\<close>, of \<open>process_demo_video\<close> and of the PDF report is the sum of the
  flat table: 500 for a helmet violation, 1000 for triple riding. The lists received are
  the normalised violations of the detector (image and PDF), the detector's violations
  of the frames that have any (video), the fallback detector's and the simulated
  scenarios; all hold only the two known types. The default for a type that is not a key
  of the table is 500.
\<close>

theorem running_total_flat_table:
  "(list_all known_type vs \<longrightarrow>
        process_demo_image_total vs = spec_total vs
        \<and> generate_enhanced_pdf_total vs = spec_total vs)
     \<and> (list_all known_type (concat tline) \<longrightarrow>
           process_demo_video_total tline = spec_total (concat tline))
     \<and> process_demo_image_total (formatted_violations (yolo_advanced_detection mt boxes)) =
         spec_total (formatted_violations (yolo_advanced_detection mt boxes))
     \<and> generate_enhanced_pdf_total (formatted_violations (yolo_advanced_detection mt boxes)) =
         spec_total (formatted_violations (yolo_advanced_detection mt boxes))
     \<and> process_demo_video_total (timeline_violations (map (yolo_advanced_detection mt) frames)) =
         spec_total (concat (timeline_violations (map (yolo_advanced_detection mt) frames)))
     \<and> process_demo_image_total (fallback_detection n) = spec_total (fallback_detection n)
     \<and> list_all (\<lambda>s. process_demo_image_total s = spec_total s) scenarios
     \<and> (FINES t = None \<longrightarrow> (case FINES t of Some a \<Rightarrow> a | None \<Rightarrow> 500) = spec_flat_amount t)"
proof -
  have img: "process_demo_image_total xs = spec_total xs
      \<and> generate_enhanced_pdf_total xs = spec_total xs" if "list_all known_type xs" for xs
    using that
    by (simp add: process_demo_image_total_def generate_enhanced_pdf_total_def
        total_fine_loop_sum pdf_total_loop_sum known_sums)
  have vid: "process_demo_video_total tl' = spec_total (concat tl')"
    if "list_all known_type (concat tl')" for tl'
    using that by (simp add: process_demo_video_total_def timeline_loop_sum known_sums)
  have sc: "list_all (\<lambda>s. process_demo_image_total s = spec_total s) scenarios"
    using scenarios_known img by (simp add: list_all_iff)
  have fn: "FINES t = None \<longrightarrow> (case FINES t of Some a \<Rightarrow> a | None \<Rightarrow> 500) = spec_flat_amount t"
    by (auto simp: FINES_def spec_flat_amount_def split: if_splits)
  from img [of vs] vid [of tline] img [OF formatted_known] vid [OF timeline_known]
    img [OF fallback_known] sc fn
  show ?thesis by blast
qed

theorem running_total_flat_table_witness:
  "process_demo_image_total [''helmet_violation'', ''triple_riding''] = 1500
     \<and> generate_enhanced_pdf_total [''helmet_violation'', ''triple_riding''] = 1500
     \<and> process_demo_video_total [[''helmet_violation''], [''triple_riding'', ''helmet_violation'']] = 2000
     \<and> (case FINES ''overspeed'' of Some a \<Rightarrow> a | None \<Rightarrow> 500) = (500 :: int)"
proof -
  have k: "list_all known_type [''helmet_violation'', ''triple_riding'']"
    "list_all known_type (concat [[''helmet_violation''], [''triple_riding'', ''helmet_violation'']])"
    by (simp_all add: known_type_def)
  have s: "spec_total [''helmet_violation'', ''triple_riding''] = 1500"
    "spec_total (concat [[''helmet_violation''], [''triple_riding'', ''helmet_violation'']]) = 2000"
    "spec_flat_amount ''overspeed'' = 500"
    by (simp_all add: spec_total_def spec_flat_amount_def)
  have f: "FINES ''overspeed'' = None"
    by (simp add: FINES_def)
  from k s f running_total_flat_table [where vs = "[''helmet_violation'', ''triple_riding'']"
      and tline = "[[''helmet_violation''], [''triple_riding'', ''helmet_violation'']]"
      and t = "''overspeed''"]
  show ?thesis by simp
qed

text \<open>
  Claim C8. The two timestamp computations at the inputs where each departs from the
  specified timestamp. With a reported fps of 0 \<open>worker.py\<close> raises \<open>ZeroDivisionError\<close>
  where \<open>video_processor.py\<close> returns the frame index; at 29.97 fps
  \<open>video_processor.py\<close> divides frame index 30 by 29 where \<open>worker.py\<close> divides by 29.97;
  and a NaN fps makes the \<open>int\<close> conversion of \<open>video_processor.py\<close> raise.
\<close>

theorem timestamp_failing_input:
  "worker_timestamp (Finite 0) 30 = Inl ZeroDivisionError
     \<and> video_processor_timestamp (Finite 0) 30 = Inr 30
     \<and> spec_timestamp 0 30 = 30
     \<and> video_processor_timestamp (Finite (2997 / 100)) 30 = Inr (30 / 29)
     \<and> worker_timestamp (Finite (2997 / 100)) 30 = Inr (Finite (1000 / 999))
     \<and> spec_timestamp (2997 / 100) 30 = 1000 / 999
     \<and> video_processor_timestamp NaN 30 = Inl ValueError"
proof -
  have "py_int (2997 / 100) = 29" "py_int 0 = 0"
    by (simp_all add: py_int_def)
  then show ?thesis
    by (simp add: video_processor_timestamp_def int_of_float_def py_truediv_def
        worker_timestamp_def spec_timestamp_def)
qed

section \<open>Properties of the single-image pipeline\<close>































end
